theory Spec2Isabelle
  imports Complex_Main "HOL-Library.Word" "HOL-Library.Signed_Division" "HOL-Library.Sublist"
begin

section \<open>Bytes, hex strings and errors\<close>

text \<open>
  The repository is TypeScript on top of the ethers (v5) library. Binary data travels as
  hex strings (\<open>0x\<close> followed by two lower-case digits per byte); the model keeps the
  bytes themselves and renders them with \<open>hexlify\<close> where the source looks at the string.
  A JavaScript exception is a value \<open>Error msg\<close> on the left of a sum.
\<close>

type_synonym byte = "8 word"
type_synonym bytes = "byte list"

datatype error = Error string

definition hexdigit :: "nat \<Rightarrow> char" where
  "hexdigit n = ''0123456789abcdef'' ! (n mod 16)"

definition hex2 :: "byte \<Rightarrow> string" where
  "hex2 b = [hexdigit (unat b div 16), hexdigit (unat b mod 16)]"

definition hexlify :: "bytes \<Rightarrow> string" where
  "hexlify bs = ''0x'' @ concat (map hex2 bs)"

text \<open>\<open>ethers.constants.HashZero\<close>: thirty-two zero bytes.\<close>

definition HashZero :: bytes where
  "HashZero = replicate 32 0"

text \<open>\<open>ethers.utils.hexDataSlice(data, offset)\<close>: the bytes from \<open>offset\<close> to the end.\<close>

definition hexDataSlice :: "bytes \<Rightarrow> nat \<Rightarrow> bytes" where
  "hexDataSlice d offset = drop offset d"

text \<open>
  \<open>ethers.utils.solidityPack(types, values)\<close>, for the types used here: an \<open>address\<close>
  contributes its bytes as they are, a \<open>bytesN\<close> value must be exactly \<open>N\<close> bytes long
  (\<open>1 \<le> N \<le> 32\<close>), and the packed pieces are concatenated in order.
\<close>

datatype SolType = Address | BytesN nat

fun pack :: "SolType \<Rightarrow> bytes \<Rightarrow> error + bytes" where
  "pack Address v = Inr v"
| "pack (BytesN n) v =
     (if n = 0 \<or> n > 32 then Inl (Error ''invalid bytes type'')
      else if length v \<noteq> n then Inl (Error ''invalid value for bytesN'')
      else Inr v)"

fun solidityPack :: "SolType list \<Rightarrow> bytes list \<Rightarrow> error + bytes" where
  "solidityPack [] [] = Inr []"
| "solidityPack (t # ts) (v # vs) =
     (case pack t v of
        Inl e \<Rightarrow> Inl e
      | Inr b \<Rightarrow> (case solidityPack ts vs of Inl e \<Rightarrow> Inl e | Inr bs \<Rightarrow> Inr (b @ bs)))"
| "solidityPack _ _ = Inl (Error ''wrong number of values; expected one per type'')"

text \<open>
  \<open>ethers.utils.getAddress\<close>: a value of twenty bytes is rendered as \<open>0x\<close> and forty hex
  digits, where a letter is upper case when the matching nibble of the hash of the
  lower-case digits is at least 8 (the mixed-case checksum); anything else is rejected.
  The hash function is the parameter \<open>keccak256\<close> throughout.
\<close>

definition toUpperCase :: "char \<Rightarrow> char" where
  "toUpperCase c =
     (if (97::nat) \<le> of_char c \<and> of_char c \<le> (122::nat)
      then char_of (of_char c - (32::nat)) else c)"

definition nibbles :: "bytes \<Rightarrow> nat list" where
  "nibbles hs = concat (map (\<lambda>b. [unat b div 16, unat b mod 16]) hs)"

definition getChecksumAddress :: "(bytes \<Rightarrow> bytes) \<Rightarrow> bytes \<Rightarrow> string" where
  "getChecksumAddress keccak256 a =
     (let chars = concat (map hex2 a);
          expanded = map (\<lambda>c. of_nat (of_char c)) chars;
          hashed = nibbles (keccak256 expanded) @ replicate 40 0
      in ''0x'' @ map (\<lambda>(c, n). if n \<ge> 8 then toUpperCase c else c) (zip chars hashed))"

definition getAddress :: "(bytes \<Rightarrow> bytes) \<Rightarrow> bytes \<Rightarrow> error + string" where
  "getAddress keccak256 a =
     (if length a = 20 then Inr (getChecksumAddress keccak256 a)
      else Inl (Error ''invalid address''))"

section \<open>SingletonDeployer: address derivation\<close>

text \<open>
  \<open>addressFromData\<close> (lines 89 to 106 of the deployer). \<open>factoryAddress\<close> is
  \<open>this.singletonFactory.address\<close>, as bytes.
\<close>

definition addressFromData :: "(bytes \<Rightarrow> bytes) \<Rightarrow> bytes \<Rightarrow> bytes \<Rightarrow> error + string" where
  "addressFromData keccak256 factoryAddress data =
     (case solidityPack [BytesN 1, Address, BytesN 32, BytesN 32]
             [[0xff], factoryAddress, HashZero, keccak256 data] of
        Inl e \<Rightarrow> Inl e
      | Inr packed \<Rightarrow> getAddress keccak256 (hexDataSlice (keccak256 packed) 12))"

section \<open>SingletonDeployer: the deployment call\<close>

text \<open>
  \<open>providers.TransactionRequest\<close>: every field is optional (\<open>None\<close> is an absent
  field). A \<open>BigNumberish\<close> is a \<open>BigNumber\<close> object, a byte array, a \<open>bigint\<close>, a
  string or a number (an integer here: a gas limit, a nonce or a value in wei is never a
  fraction).
\<close>

datatype BigNumberish =
    BigNumber int
  | BytesValue bytes
  | BigInt int
  | StringValue string
  | NumberValue int

record TransactionRequest =
  tx_to :: "string option"
  tx_from :: "string option"
  tx_nonce :: "BigNumberish option"
  gasLimit :: "BigNumberish option"
  gasPrice :: "BigNumberish option"
  tx_data :: "bytes option"
  tx_value :: "BigNumberish option"
  chainId :: "int option"
  tx_type :: "int option"
  accessList :: "(string \<times> string list) list option"
  maxPriorityFeePerGas :: "BigNumberish option"
  maxFeePerGas :: "BigNumberish option"
  customData :: "(string \<times> string) list option"
  ccipReadEnabled :: "bool option"

text \<open>
  \<open>!txParams.gasLimit\<close>: true for an absent field and for the falsy primitives (the number
  0, the bigint 0, the empty string); an object (a \<open>BigNumber\<close>, a byte array) is truthy.
\<close>

fun falsy :: "BigNumberish option \<Rightarrow> bool" where
  "falsy None = True"
| "falsy (Some (BigNumber _)) = False"
| "falsy (Some (BytesValue _)) = False"
| "falsy (Some (BigInt n)) = (n = 0)"
| "falsy (Some (StringValue s)) = (s = [])"
| "falsy (Some (NumberValue n)) = (n = 0)"

text \<open>The block returned by \<open>provider.getBlock\<close>; only its gas limit is read.\<close>

record Block =
  block_gasLimit :: int

text \<open>
  The chain is an environment of type \<open>'w\<close> that the deployer reaches only through the
  capabilities of its provider and of the singleton factory. A capability takes the
  environment and returns its answer, or the error of a rejected promise, with the
  environment after the call: another process may change the chain between two calls.
\<close>

type_synonym ('w, 'a) io = "'w \<Rightarrow> (error + 'a) \<times> 'w"

record 'w Provider =
  getCode :: "string \<Rightarrow> ('w, bytes) io"
  getBlock :: "('w, Block) io"

text \<open>
  \<open>singletonFactory.deploy(data, salt, txParams)\<close> answers with the pending transaction,
  which the deployer uses through its \<open>wait\<close> method only: the transaction is that method.
\<close>

record 'w SingletonFactoryContract =
  address :: bytes
  factory_deploy :: "bytes \<Rightarrow> bytes \<Rightarrow> TransactionRequest \<Rightarrow> ('w, ('w, unit) io) io"

record 'w SingletonDeployer =
  provider :: "'w Provider"
  singletonFactory :: "'w SingletonFactoryContract"
  logger :: bool

text \<open>
  The contract factory instance \<open>new contract(this.signer)\<close>: its creation bytecode, and
  the \<open>data\<close> field of \<open>getDeployTransaction(...args)\<close>, where \<open>None\<close> is the absent
  field that \<open>!data\<close> rejects. Both are synchronous library calls and are taken to
  return. \<open>attach\<close> binds a handle to an address.
\<close>

record 'args ContractFactory =
  bytecode :: string
  getDeployTransaction :: "'args \<Rightarrow> bytes option"

datatype Contract = Contract string

definition attach :: "'args ContractFactory \<Rightarrow> string \<Rightarrow> Contract" where
  "attach c addr = Contract addr"

text \<open>
  What a call of \<open>deploy\<close> does to the outside is recorded in order: the logger's lines
  and every capability call. \<open>FactoryDeploy\<close> is the one call that sends a transaction.
\<close>

datatype call =
    LoggerLog string
  | LoggerError string
  | GetCode string
  | GetBlock
  | FactoryDeploy bytes bytes TransactionRequest
  | TxWait

fun is_transaction :: "call \<Rightarrow> bool" where
  "is_transaction (FactoryDeploy _ _ _) = True"
| "is_transaction _ = False"

text \<open>
  The state of a call: the environment and the calls made so far. For \<open>deploy\<close> it also
  holds the caller's \<open>txParams\<close> object, which \<open>deploy\<close> has by reference.
\<close>

record ('w, 'c) run =
  world :: 'w
  calls :: "'c list"

record 'w deploy_run = "('w, call) run" +
  txParams :: TransactionRequest

type_synonym ('s, 'a) action = "'s \<Rightarrow> (error + 'a) \<times> 's"

definition await :: "('s, 'a) action \<Rightarrow> ('a \<Rightarrow> ('s, 'b) action) \<Rightarrow> ('s, 'b) action" where
  "await m f s = (case m s of (Inl e, s') \<Rightarrow> (Inl e, s') | (Inr x, s') \<Rightarrow> f x s')"

definition perform :: "'c \<Rightarrow> ('w, 'a) io \<Rightarrow> (('w, 'c, 'm) run_scheme, 'a) action" where
  "perform c f s =
     (case f (world s) of (r, w') \<Rightarrow> (r, s\<lparr>world := w', calls := calls s @ [c]\<rparr>))"

definition logger_log :: "'w SingletonDeployer \<Rightarrow> string \<Rightarrow> 'w deploy_run \<Rightarrow> 'w deploy_run" where
  "logger_log this msg s = (if logger this then s\<lparr>calls := calls s @ [LoggerLog msg]\<rparr> else s)"

definition logger_error :: "'w SingletonDeployer \<Rightarrow> string \<Rightarrow> 'w deploy_run \<Rightarrow> 'w deploy_run" where
  "logger_error this msg s = (if logger this then s\<lparr>calls := calls s @ [LoggerError msg]\<rparr> else s)"

text \<open>
  Lines 53 to 58, "Up the gas": \<open>BigNumber.mul\<close> is exact and \<open>BigNumber.div\<close> truncates
  towards zero (\<open>sdiv\<close>).
\<close>

definition upGas :: "'w SingletonDeployer \<Rightarrow> ('w deploy_run, unit) action" where
  "upGas this s =
     (if falsy (gasLimit (txParams s))
      then await (perform GetBlock (getBlock (provider this)))
             (\<lambda>b s'. (Inr (),
                s'\<lparr>txParams := (txParams s')\<lparr>gasLimit :=
                      Some (BigNumber ((block_gasLimit b * 4) sdiv 10))\<rparr>\<rparr>)) s
      else (Inr (), s))"

text \<open>Lines 59 to 65, "Deploy it": the factory call with the zero salt, then \<open>tx.wait()\<close>.\<close>

definition deployIt :: "'w SingletonDeployer \<Rightarrow> bytes \<Rightarrow> ('w deploy_run, unit) action" where
  "deployIt this data =
     await (\<lambda>s. perform (FactoryDeploy data HashZero (txParams s))
                  (factory_deploy (singletonFactory this) data HashZero (txParams s)) s)
       (\<lambda>tx. perform TxWait tx)"

text \<open>Lines 67 to 74, "Confirm deployment", and the final \<open>attach\<close>.\<close>

definition confirmDeployment ::
  "'w SingletonDeployer \<Rightarrow> string \<Rightarrow> 'args ContractFactory \<Rightarrow> string \<Rightarrow> ('w deploy_run, Contract) action" where
  "confirmDeployment this name c addr =
     await (perform (GetCode addr) (getCode (provider this) addr))
       (\<lambda>code s.
          if length (hexlify code) \<le> 2
          then (let errMsg = ''Failed to deploy '' @ name @ '' at '' @ addr
                in (Inl (Error errMsg), logger_error this errMsg s))
          else (Inr (attach c addr), s))"

text \<open>
  \<open>deploy\<close> (lines 30 to 75), for a caller who passes a \<open>txParams\<close> object. Every
  \<open>await\<close> of the source is an \<open>await\<close> here: a rejected promise ends the call with
  its error, and the state keeps what was done before.
\<close>

definition deploy ::
  "(bytes \<Rightarrow> bytes) \<Rightarrow> 'w SingletonDeployer \<Rightarrow> string \<Rightarrow> 'args ContractFactory \<Rightarrow> 'args
     \<Rightarrow> ('w deploy_run, Contract) action" where
  "deploy keccak256 this name c args s0 =
     (let s = logger_log this (''Deploying '' @ name) s0 in
      case getDeployTransaction c args of
        None \<Rightarrow> (Inl (Error (''No data for '' @ name)), s)
      | Some data \<Rightarrow>
          await (\<lambda>s. (addressFromData keccak256 (address (singletonFactory this)) data, s))
            (\<lambda>addr.
               await (perform (GetCode addr) (getCode (provider this) addr))
                 (\<lambda>code s.
                    if length (hexlify code) > 2
                    then (Inr (attach c addr),
                          logger_log this
                            (''Skipping '' @ name @ '' because it has been deployed at '' @ addr) s)
                    else await (upGas this)
                           (\<lambda>_. await (deployIt this data)
                                  (\<lambda>_. confirmDeployment this name c addr)) s)) s)"

text \<open>\<open>addressOf\<close> (lines 77 to 87); \<open>contract.name\<close> is the class name.\<close>

definition addressOf ::
  "(bytes \<Rightarrow> bytes) \<Rightarrow> 'w SingletonDeployer \<Rightarrow> string \<Rightarrow> 'args ContractFactory \<Rightarrow> 'args
     \<Rightarrow> error + string" where
  "addressOf keccak256 this class_name c args =
     (case getDeployTransaction c args of
        None \<Rightarrow> Inl (Error (''No data for '' @ class_name))
      | Some data \<Rightarrow> addressFromData keccak256 (address (singletonFactory this)) data)"

section \<open>ContractVerifier\<close>

text \<open>The canonical verification request (lines 22 to 44).\<close>

record Optimizer =
  enabled :: bool
  runs :: int
  details :: "bool option option"

record Settings =
  optimizer :: Optimizer
  libraries :: "(string \<times> (string \<times> string) list) list option"
  remappings :: "string list option"

record ContractVerificationRequest =
  contractToVerify :: string
  version :: string
  sources :: "(string \<times> string) list"
  settings :: Settings
  waitForSuccess :: bool

text \<open>The request shapes of the two backends, as \<open>verifyContract\<close> builds them.\<close>

record TenderlyVerificationRequest =
  tenderly_contractToVerify :: string
  solc_version :: string
  solc_sources :: "(string \<times> string) list"
  solc_optimizer :: Optimizer
  config_mode :: string

record CompilerInput =
  language :: string
  input_sources :: "(string \<times> string) list"
  input_optimizer :: Optimizer
  outputSelection :: "(string \<times> (string \<times> string list) list) list"
  input_remappings :: "string list option"

record EtherscanVerificationRequest =
  etherscan_contractToVerify :: string
  etherscan_version :: string
  compilerInput :: CompilerInput
  etherscan_waitForSuccess :: bool

text \<open>
  The answer of \<open>axios.get\<close>: the status, the text that \<open>response.data\<close> gives inside a
  template string, and the property lookup \<open>response.data.releases[key]\<close> (\<open>None\<close> when
  that lookup itself throws, as on a document with no \<open>releases\<close>).
\<close>

datatype JsValue = Undefined | JsString string | JsOther

record AxiosResponse =
  status :: int
  data_text :: string
  releases :: "(string \<Rightarrow> JsValue) option"

text \<open>
  The verifier reaches the network through three capabilities: the two backends'
  \<open>verifyContract\<close> and \<open>axios.get\<close>.
\<close>

record 'w ContractVerifier =
  tenderlyVerifier :: "string \<Rightarrow> string \<Rightarrow> TenderlyVerificationRequest \<Rightarrow> ('w, unit) io"
  etherscanVerifier :: "string \<Rightarrow> EtherscanVerificationRequest \<Rightarrow> ('w, unit) io"
  axios_get :: "string \<Rightarrow> ('w, AxiosResponse) io"
  verifier_logger :: bool

datatype verifier_call =
    AxiosGet string
  | TenderlyVerify string string TenderlyVerificationRequest
  | EtherscanVerify string EtherscanVerificationRequest
  | VerifierLoggerError string

fun is_registry_call :: "verifier_call \<Rightarrow> bool" where
  "is_registry_call (AxiosGet _) = True"
| "is_registry_call _ = False"

fun is_tenderly_call :: "verifier_call \<Rightarrow> bool" where
  "is_tenderly_call (TenderlyVerify _ _ _) = True"
| "is_tenderly_call _ = False"

fun is_etherscan_call :: "verifier_call \<Rightarrow> bool" where
  "is_etherscan_call (EtherscanVerify _ _) = True"
| "is_etherscan_call _ = False"

type_synonym 'w verifier_run = "('w, verifier_call) run"

definition COMPILERS_LIST_URL :: string where
  "COMPILERS_LIST_URL = ''https://solc-bin.ethereum.org/bin/list.json''"

text \<open>\<open>validateBytecode\<close> (lines 63 to 72): strict string comparison.\<close>

definition validateBytecode :: "'args ContractFactory \<Rightarrow> string \<Rightarrow> error + unit" where
  "validateBytecode factory expectedBytecode =
     (if bytecode factory \<noteq> expectedBytecode then Inl (Error ''Bytecode mismatch'')
      else Inr ())"

text \<open>
  \<open>fullVersion.replace(/(soljson-)(.*)(.js)/, '$2')\<close>: the leftmost match is replaced by
  its second group. A match starts with \<open>soljson-\<close>; the greedy \<open>.*\<close> first takes every
  character up to the next line terminator and gives characters back one at a time
  until \<open>.js\<close> (any character but a line terminator, then \<open>js\<close>) matches after it.
\<close>

definition line_terminator :: "char \<Rightarrow> bool" where
  "line_terminator c = (c = CHR 0x0A \<or> c = CHR 0x0D)"

definition dot_js_at :: "string \<Rightarrow> bool" where
  "dot_js_at s =
     (case s of
        c # j # s' # _ \<Rightarrow> \<not> line_terminator c \<and> j = CHR ''j'' \<and> s' = CHR ''s''
      | _ \<Rightarrow> False)"

fun backtrack :: "nat \<Rightarrow> string \<Rightarrow> nat option" where
  "backtrack 0 rest = (if dot_js_at rest then Some 0 else None)"
| "backtrack (Suc k) rest =
     (if dot_js_at (drop (Suc k) rest) then Some (Suc k) else backtrack k rest)"

definition match_here :: "string \<Rightarrow> (string \<times> string) option" where
  "match_here s =
     (if take 8 s = ''soljson-''
      then (let rest = drop 8 s;
                n = length (takeWhile (\<lambda>c. \<not> line_terminator c) rest)
            in case backtrack n rest of
                 None \<Rightarrow> None
               | Some k \<Rightarrow> Some (take k rest, drop (k + 3) rest))
      else None)"

fun replace_soljson :: "string \<Rightarrow> string" where
  "replace_soljson [] = []"
| "replace_soljson (c # cs) =
     (case match_here (c # cs) of
        Some (group2, after) \<Rightarrow> group2 @ after
      | None \<Rightarrow> c # replace_soljson cs)"

definition verifier_logger_error ::
  "'w ContractVerifier \<Rightarrow> string \<Rightarrow> 'w verifier_run \<Rightarrow> 'w verifier_run" where
  "verifier_logger_error this msg s =
     (if verifier_logger this then s\<lparr>calls := calls s @ [VerifierLoggerError msg]\<rparr> else s)"

text \<open>The body of the \<open>try\<close> of \<open>getLongVersion\<close> (lines 150 to 171).\<close>

definition fetchLongVersion :: "'w ContractVerifier \<Rightarrow> string \<Rightarrow> ('w verifier_run, string) action" where
  "fetchLongVersion this shortVersion =
     await (perform (AxiosGet COMPILERS_LIST_URL) (axios_get this COMPILERS_LIST_URL))
       (\<lambda>response s.
          if status response < 200 \<or> status response > 299
          then (Inl (Error (''Unabled to get solidity compiler versions. '' @ data_text response)), s)
          else (case releases response of
                  None \<Rightarrow> (Inl (Error ''Cannot read properties of undefined''), s)
                | Some rel \<Rightarrow>
                    (case rel shortVersion of
                       Undefined \<Rightarrow>
                         (Inl (Error (''Unabled to find full solidity compiler version ''
                                        @ shortVersion)), s)
                     | JsString fullVersion \<Rightarrow>
                         if fullVersion = []
                         then (Inl (Error (''Unabled to find full solidity compiler version ''
                                             @ shortVersion)), s)
                         else (Inr (replace_soljson fullVersion), s)
                     | JsOther \<Rightarrow> (Inl (Error ''fullVersion.replace is not a function''), s))))"

text \<open>\<open>getLongVersion\<close> (lines 146 to 177): whatever the \<open>try\<close> throws is caught and replaced.\<close>

definition getLongVersion :: "'w ContractVerifier \<Rightarrow> string \<Rightarrow> ('w verifier_run, string) action" where
  "getLongVersion this shortVersion s =
     (case fetchLongVersion this shortVersion s of
        (Inr longVersion, s') \<Rightarrow> (Inr longVersion, s')
      | (Inl caught, s') \<Rightarrow>
          (let errMsg = ''Unable to determine solidity compiler version''
           in (Inl (Error errMsg), verifier_logger_error this errMsg s')))"

text \<open>\<open>String.prototype.split\<close> with a one-character separator.\<close>

fun split_on :: "char \<Rightarrow> string \<Rightarrow> string list" where
  "split_on sep [] = [[]]"
| "split_on sep (c # cs) =
     (if c = sep then [] # split_on sep cs
      else (case split_on sep cs of
              [] \<Rightarrow> [[c]]
            | piece # pieces \<Rightarrow> (c # piece) # pieces))"

text \<open>
  Lines 78 to 89 of \<open>verifyContract\<close>: the pair of the short and the long version.
  \<open>split('+')[0]\<close> is the head of a list that is never empty.
\<close>

definition resolveVersions ::
  "'w ContractVerifier \<Rightarrow> string \<Rightarrow> ('w verifier_run, string \<times> string) action" where
  "resolveVersions this v =
     (if CHR ''+'' \<in> set v
      then (\<lambda>s. (Inr (hd (split_on CHR ''+'' v), v), s))
      else await (getLongVersion this v) (\<lambda>longVersion s. (Inr (v, longVersion), s)))"

text \<open>Lines 92 to 105 and 107 to 132: the two projections of the canonical request.\<close>

definition tenderVerificationRequest ::
  "ContractVerificationRequest \<Rightarrow> string \<Rightarrow> TenderlyVerificationRequest" where
  "tenderVerificationRequest verificationRequest shortVersion =
     \<lparr>tenderly_contractToVerify = contractToVerify verificationRequest,
      solc_version = shortVersion,
      solc_sources = sources verificationRequest,
      solc_optimizer = optimizer (settings verificationRequest),
      config_mode = ''public''\<rparr>"

definition etherscanVerificationRequest ::
  "ContractVerificationRequest \<Rightarrow> string \<Rightarrow> EtherscanVerificationRequest" where
  "etherscanVerificationRequest verificationRequest longVersion =
     \<lparr>etherscan_contractToVerify = contractToVerify verificationRequest,
      etherscan_version = longVersion,
      compilerInput =
        \<lparr>language = ''Solidity'',
         input_sources = sources verificationRequest,
         input_optimizer = optimizer (settings verificationRequest),
         outputSelection =
           [(''*'', [(''*'', [''abi'', ''evm.bytecode'', ''evm.deployedBytecode'',
                              ''evm.methodIdentifiers'', ''metadata'']),
                     ([], [''ast''])])],
         input_remappings = remappings (settings verificationRequest)\<rparr>,
      etherscan_waitForSuccess = waitForSuccess verificationRequest\<rparr>"

text \<open>\<open>verifyContract\<close> (lines 74 to 143).\<close>

definition verifyContract ::
  "'w ContractVerifier \<Rightarrow> string \<Rightarrow> ContractVerificationRequest \<Rightarrow> ('w verifier_run, unit) action" where
  "verifyContract this addr verificationRequest =
     await (resolveVersions this (version verificationRequest))
       (\<lambda>(shortVersion, longVersion).
          await (perform
                   (TenderlyVerify addr (contractToVerify verificationRequest)
                      (tenderVerificationRequest verificationRequest shortVersion))
                   (tenderlyVerifier this addr (contractToVerify verificationRequest)
                      (tenderVerificationRequest verificationRequest shortVersion)))
            (\<lambda>_. perform
                   (EtherscanVerify addr
                      (etherscanVerificationRequest verificationRequest longVersion))
                   (etherscanVerifier this addr
                      (etherscanVerificationRequest verificationRequest longVersion))))"

text \<open>
  A stand-in hash with thirty-two byte digests, used to run the definitions on concrete
  inputs: the digest repeats the input's length and its first byte.
\<close>

definition sample_hash :: "bytes \<Rightarrow> bytes" where
  "sample_hash bs = replicate 16 (of_nat (length bs)) @ replicate 16 (case bs of [] \<Rightarrow> 0xab | b # _ \<Rightarrow> b)"

section \<open>A simulated chain and network\<close>

text \<open>
  Concrete capabilities on which the definitions run. The simulated chain is the list of
  the addresses that hold code; its latest block has a gas limit of thirty million. The
  simulated factory accepts every transaction; with \<open>installs\<close> it puts the data at the
  derived address, without it the transaction leaves the chain as it was.
\<close>

type_synonym sim_chain = "(string \<times> bytes) list"

definition sim_provider :: "sim_chain Provider" where
  "sim_provider =
     \<lparr>getCode = (\<lambda>a w. (Inr (case map_of w a of None \<Rightarrow> [] | Some code \<Rightarrow> code), w)),
      getBlock = (\<lambda>w. (Inr \<lparr>block_gasLimit = 30000000\<rparr>, w))\<rparr>"

definition sim_factory_address :: bytes where
  "sim_factory_address =
     [0xce, 0x00, 0x42, 0xb8, 0x68, 0x30, 0x00, 0x00, 0xd4, 0x4a,
      0x59, 0x00, 0x4d, 0xa5, 0x4a, 0x00, 0x5f, 0xfd, 0xcf, 0x9f]"

definition sim_factory :: "bool \<Rightarrow> sim_chain SingletonFactoryContract" where
  "sim_factory installs =
     \<lparr>address = sim_factory_address,
      factory_deploy = (\<lambda>data salt params w.
         (Inr (\<lambda>w'. (Inr (), w')),
          (if installs
           then (case addressFromData sample_hash sim_factory_address data of
                   Inl _ \<Rightarrow> w
                 | Inr a \<Rightarrow> (a, data) # w)
           else w)))\<rparr>"

definition sim_deployer :: "bool \<Rightarrow> sim_chain SingletonDeployer" where
  "sim_deployer installs =
     \<lparr>provider = sim_provider, singletonFactory = sim_factory installs, logger = True\<rparr>"

text \<open>The same deployer on a provider that rejects the request for the latest block.\<close>

definition sim_deployer_no_block :: "sim_chain SingletonDeployer" where
  "sim_deployer_no_block =
     \<lparr>provider = sim_provider\<lparr>getBlock := (\<lambda>w. (Inl (Error ''could not detect network''), w))\<rparr>,
      singletonFactory = sim_factory True, logger = True\<rparr>"

definition counter_factory :: "unit ContractFactory" where
  "counter_factory = \<lparr>bytecode = ''0x6080'', getDeployTransaction = (\<lambda>_. Some [0x60, 0x80])\<rparr>"

definition counter_address :: string where
  "counter_address = ''0x55555555fFfFfFfFfFfFfFfFfFfFfFfFffffffff''"

definition no_params :: TransactionRequest where
  "no_params =
     \<lparr>tx_to = None, tx_from = None, tx_nonce = None, gasLimit = None, gasPrice = None,
      tx_data = None, tx_value = None, chainId = None, tx_type = None, accessList = None,
      maxPriorityFeePerGas = None, maxFeePerGas = None, customData = None,
      ccipReadEnabled = None\<rparr>"

definition sim_start :: "sim_chain \<Rightarrow> TransactionRequest \<Rightarrow> sim_chain deploy_run" where
  "sim_start w params = \<lparr>world = w, calls = [], txParams = params\<rparr>"

text \<open>
  The simulated network of the verifier has no state. The registry answers with the
  given result; the first backend fails when \<open>tenderly_down\<close> is set.
\<close>

definition sim_verifier :: "error + AxiosResponse \<Rightarrow> bool \<Rightarrow> unit ContractVerifier" where
  "sim_verifier registry tenderly_down =
     \<lparr>tenderlyVerifier = (\<lambda>a n r w.
         (if tenderly_down then Inl (Error ''Tenderly is down'') else Inr (), w)),
      etherscanVerifier = (\<lambda>a r w. (Inr (), w)),
      axios_get = (\<lambda>url w. (registry, w)),
      verifier_logger = True\<rparr>"

definition sim_releases :: "string \<Rightarrow> JsValue" where
  "sim_releases key =
     (if key = ''v0.8.18'' then JsString ''soljson-v0.8.18+commit.87f61d96.js''
      else if key = ''v0.8.19'' then JsString ''soljson-v0.8.19+commit.7dd6d404.js''
      else Undefined)"

definition sim_registry :: AxiosResponse where
  "sim_registry = \<lparr>status = 200, data_text = ''[object Object]'', releases = Some sim_releases\<rparr>"

definition sim_net :: "unit verifier_run" where
  "sim_net = \<lparr>world = (), calls = []\<rparr>"

definition counter_request :: "string \<Rightarrow> ContractVerificationRequest" where
  "counter_request v =
     \<lparr>contractToVerify = ''Counter.sol:CounterWithLogs'',
      version = v,
      sources = [(''Counter.sol'', ''contract CounterWithLogs {}'')],
      settings = \<lparr>optimizer = \<lparr>enabled = False, runs = 200, details = None\<rparr>,
                  libraries = None, remappings = None\<rparr>,
      waitForSuccess = True\<rparr>"

section \<open>Theorems\<close>

subsection \<open>Auxiliary facts\<close>

lemma length_sample_hash: "length (sample_hash bs) = 32"
  by (simp add: sample_hash_def)

lemma length_hex2: "length (hex2 b) = 2"
  by (simp add: hex2_def)

lemma length_hexlify: "length (hexlify bs) = 2 + 2 * length bs"
  by (induction bs) (simp_all add: hexlify_def length_hex2)

lemma hexlify_longer_iff: "length (hexlify code) > 2 \<longleftrightarrow> code \<noteq> []"
  by (simp add: length_hexlify)

lemma backtrack_hit: "dot_js_at (drop k rest) \<Longrightarrow> backtrack k rest = Some k"
  by (cases k) simp_all

lemma takeWhile_all: "\<forall>c \<in> set xs. P c \<Longrightarrow> takeWhile P xs = xs"
  by (induction xs) simp_all

lemma match_here_strip:
  assumes "\<forall>c \<in> set v. \<not> line_terminator c"
  shows "match_here (''soljson-'' @ v @ ''.js'') = Some (v, [])"
proof -
  let ?rest = "v @ ''.js''"
  have nt: "\<forall>c \<in> set ?rest. \<not> line_terminator c"
    using assms by (auto simp: line_terminator_def)
  have n: "length (takeWhile (\<lambda>c. \<not> line_terminator c) ?rest) = Suc (Suc (Suc (length v)))"
    using takeWhile_all [OF nt] by simp
  have hit: "dot_js_at (drop (length v) ?rest)"
    by (simp add: dot_js_at_def line_terminator_def)
  have "backtrack (Suc (Suc (Suc (length v)))) ?rest = Some (length v)"
    using backtrack_hit [OF hit] by (simp add: dot_js_at_def)
  then show ?thesis
    using n by (simp add: match_here_def)
qed

lemma replace_soljson_strip:
  assumes "\<forall>c \<in> set v. \<not> line_terminator c"
  shows "replace_soljson (''soljson-'' @ v @ ''.js'') = v"
  using match_here_strip [OF assms] by simp

lemma split_on_nonempty: "split_on sep s \<noteq> []"
  by (induction s) (simp_all split: list.splits)

lemma hd_split_on: "hd (split_on sep s) = takeWhile (\<lambda>c. c \<noteq> sep) s"
  by (induction s) (auto simp: split_on_nonempty split: list.splits)

lemma resolveVersions_long:
  assumes "CHR ''+'' \<in> set v"
  shows "resolveVersions this v s = (Inr (takeWhile (\<lambda>c. c \<noteq> CHR ''+'') v, v), s)"
  using assms by (simp add: resolveVersions_def hd_split_on)

lemma resolveVersions_calls:
  "\<exists>pre. calls (snd (resolveVersions this v s)) = calls s @ pre
         \<and> (\<forall>c \<in> set pre. \<not> is_tenderly_call c \<and> \<not> is_etherscan_call c)"
proof (cases "CHR ''+'' \<in> set v")
  case True
  then show ?thesis by (simp add: resolveVersions_long)
next
  case False
  obtain r w' where a: "axios_get this COMPILERS_LIST_URL (world s) = (r, w')"
    by (cases "axios_get this COMPILERS_LIST_URL (world s)")
  have "calls (snd (getLongVersion this v s)) = calls s @ [AxiosGet COMPILERS_LIST_URL]
      \<or> calls (snd (getLongVersion this v s)) = calls s @ [AxiosGet COMPILERS_LIST_URL,
            VerifierLoggerError ''Unable to determine solidity compiler version'']"
    using a
    by (auto simp: getLongVersion_def fetchLongVersion_def await_def perform_def Let_def
          verifier_logger_error_def split: sum.splits option.splits JsValue.splits)
  moreover have "calls (snd (resolveVersions this v s)) = calls (snd (getLongVersion this v s))"
    using False
    by (auto simp: resolveVersions_def await_def split: prod.splits sum.splits)
  ultimately show ?thesis by auto
qed

lemma split_before_last:
  assumes "xs @ c # ys = pre @ [t, e]" and "c \<notin> set pre" and "c \<noteq> t"
  shows "xs = pre @ [t]"
  using assms
  by (auto simp: append_eq_append_conv2 Cons_eq_append_conv append_eq_Cons_conv)

lemma verifyContract_shape:
  "\<exists>pre new. calls (snd (verifyContract this addr req s)) = calls s @ new
     \<and> (\<forall>c \<in> set pre. \<not> is_tenderly_call c \<and> \<not> is_etherscan_call c)
     \<and> (new = pre \<or> (\<exists>t. is_tenderly_call t \<and> (new = pre @ [t] \<or> (\<exists>e. new = pre @ [t, e]))))"
proof -
  obtain pre where pre: "calls (snd (resolveVersions this (version req) s)) = calls s @ pre"
    and clean: "\<forall>c \<in> set pre. \<not> is_tenderly_call c \<and> \<not> is_etherscan_call c"
    using resolveVersions_calls by blast
  obtain r s1 where rv: "resolveVersions this (version req) s = (r, s1)"
    by (cases "resolveVersions this (version req) s")
  have s1: "calls s1 = calls s @ pre"
    using rv pre by simp
  show ?thesis
  proof (cases r)
    case (Inl e)
    then have "calls (snd (verifyContract this addr req s)) = calls s @ pre"
      using rv s1 by (simp add: verifyContract_def await_def)
    then show ?thesis using clean by blast
  next
    case (Inr p)
    obtain short long where p: "p = (short, long)" by (cases p)
    let ?t = "TenderlyVerify addr (contractToVerify req) (tenderVerificationRequest req short)"
    let ?e = "EtherscanVerify addr (etherscanVerificationRequest req long)"
    obtain rt w2 where t: "tenderlyVerifier this addr (contractToVerify req)
        (tenderVerificationRequest req short) (world s1) = (rt, w2)"
      by (cases "tenderlyVerifier this addr (contractToVerify req)
        (tenderVerificationRequest req short) (world s1)")
    have tc: "is_tenderly_call ?t" by simp
    show ?thesis
    proof (cases rt)
      case (Inl e)
      have "calls (snd (verifyContract this addr req s)) = calls s @ (pre @ [?t])"
        using rv s1 Inr p t Inl by (simp add: verifyContract_def await_def perform_def)
      then show ?thesis using clean tc by blast
    next
      case (Inr u)
      obtain re w3 where e: "etherscanVerifier this addr
          (etherscanVerificationRequest req long) w2 = (re, w3)"
        by (cases "etherscanVerifier this addr (etherscanVerificationRequest req long) w2")
      have "calls (snd (verifyContract this addr req s)) = calls s @ (pre @ [?t, ?e])"
        using rv s1 \<open>r = Inr p\<close> p t Inr e
        by (simp add: verifyContract_def await_def perform_def)
      then show ?thesis using clean tc by blast
    qed
  qed
qed

lemma logger_log_fields [simp]:
  "world (logger_log this m s) = world s"
  "txParams (logger_log this m s) = txParams s"
  "filter is_transaction (calls (logger_log this m s)) = filter is_transaction (calls s)"
  by (simp_all add: logger_log_def)

lemma logger_error_fields [simp]:
  "world (logger_error this m s) = world s"
  "txParams (logger_error this m s) = txParams s"
  "filter is_transaction (calls (logger_error this m s)) = filter is_transaction (calls s)"
  by (simp_all add: logger_error_def)

lemma deploy_unfold:
  assumes "getDeployTransaction c args = Some data"
    and "addressFromData keccak256 (address (singletonFactory this)) data = Inr addr"
    and "getCode (provider this) addr (world s) = (Inr code, w1)"
  shows "deploy keccak256 this name c args s =
     (let s0 = logger_log this (''Deploying '' @ name) s;
          s1 = s0\<lparr>world := w1, calls := calls s0 @ [GetCode addr]\<rparr>
      in if code \<noteq> []
         then (Inr (Contract addr),
               logger_log this (''Skipping '' @ name @ '' because it has been deployed at '' @ addr) s1)
         else await (upGas this)
                (\<lambda>_. await (deployIt this data) (\<lambda>_. confirmDeployment this name c addr)) s1)"
  using assms
  by (simp add: deploy_def Let_def await_def perform_def attach_def hexlify_longer_iff)

lemma confirmDeployment_fields:
  "txParams (snd (confirmDeployment this name c addr s)) = txParams s"
  "filter is_transaction (calls (snd (confirmDeployment this name c addr s)))
     = filter is_transaction (calls s)"
  by (auto simp: confirmDeployment_def await_def perform_def Let_def
        split: prod.splits sum.splits)

lemma deployIt_fields:
  "txParams (snd (deployIt this data s)) = txParams s"
  "filter is_transaction (calls (snd (deployIt this data s)))
     = filter is_transaction (calls s) @ [FactoryDeploy data HashZero (txParams s)]"
  by (auto simp: deployIt_def await_def perform_def split: prod.splits sum.splits)

lemma send_and_confirm_fields:
  "txParams (snd (await (deployIt this data) (\<lambda>_. confirmDeployment this name c addr) s))
     = txParams s"
  "filter is_transaction
     (calls (snd (await (deployIt this data) (\<lambda>_. confirmDeployment this name c addr) s)))
     = filter is_transaction (calls s) @ [FactoryDeploy data HashZero (txParams s)]"
proof -
  obtain r s' where r: "deployIt this data s = (r, s')"
    by (cases "deployIt this data s")
  have f: "txParams s' = txParams s"
    "filter is_transaction (calls s')
       = filter is_transaction (calls s) @ [FactoryDeploy data HashZero (txParams s)]"
    using deployIt_fields [of this data s] r by simp_all
  show "txParams (snd (await (deployIt this data) (\<lambda>_. confirmDeployment this name c addr) s))
     = txParams s"
    using r f by (cases r) (simp_all add: await_def confirmDeployment_fields)
  show "filter is_transaction
     (calls (snd (await (deployIt this data) (\<lambda>_. confirmDeployment this name c addr) s)))
     = filter is_transaction (calls s) @ [FactoryDeploy data HashZero (txParams s)]"
    using r f by (cases r) (simp_all add: await_def confirmDeployment_fields)
qed

lemma sdiv_nonneg: "0 \<le> g \<Longrightarrow> (g * 4) sdiv 10 = (g * 4) div (10::int)"
  by (simp add: signed_divide_int_def sgn_if)

lemma floor_form: "(g * 4) div 10 = \<lfloor>real_of_int g * 4 / 10\<rfloor>"
proof -
  have "\<lfloor>real_of_int (g * 4) / real_of_int 10\<rfloor> = (g * 4) div 10"
    by (rule floor_divide_of_int_eq)
  then show ?thesis by simp
qed

lemma upGas_estimates:
  assumes "falsy (gasLimit (txParams s1))"
    and "getBlock (provider this) (world s1) = (Inr b, w2)"
  shows "upGas this s1 =
     (Inr (), s1\<lparr>world := w2, calls := calls s1 @ [GetBlock],
                  txParams := (txParams s1)\<lparr>gasLimit :=
                     Some (BigNumber ((block_gasLimit b * 4) sdiv 10))\<rparr>\<rparr>)"
  using assms by (simp add: upGas_def await_def perform_def)

lemma deploy_estimating:
  assumes "getDeployTransaction c args = Some data"
    and "addressFromData keccak256 (address (singletonFactory this)) data = Inr addr"
    and "getCode (provider this) addr (world s) = (Inr [], w1)"
    and "falsy (gasLimit (txParams s))"
    and "getBlock (provider this) w1 = (Inr b, w2)"
  shows "txParams (snd (deploy keccak256 this name c args s))
           = (txParams s)\<lparr>gasLimit := Some (BigNumber ((block_gasLimit b * 4) sdiv 10))\<rparr>"
    and "filter is_transaction (calls (snd (deploy keccak256 this name c args s)))
           = filter is_transaction (calls s) @
             [FactoryDeploy data HashZero
                ((txParams s)\<lparr>gasLimit := Some (BigNumber ((block_gasLimit b * 4) sdiv 10))\<rparr>)]"
proof -
  let ?s0 = "logger_log this (''Deploying '' @ name) s"
  let ?s1 = "?s0\<lparr>world := w1, calls := calls ?s0 @ [GetCode addr]\<rparr>"
  let ?p = "(txParams s)\<lparr>gasLimit := Some (BigNumber ((block_gasLimit b * 4) sdiv 10))\<rparr>"
  let ?s2 = "?s1\<lparr>world := w2, calls := calls ?s1 @ [GetBlock], txParams := ?p\<rparr>"
  have u: "upGas this ?s1 = (Inr (), ?s2)"
    using upGas_estimates [of ?s1 this b w2] assms(4,5) by simp
  have d: "deploy keccak256 this name c args s =
      await (deployIt this data) (\<lambda>_. confirmDeployment this name c addr) ?s2"
    using deploy_unfold [OF assms(1,2,3), of name] u by (simp add: Let_def await_def)
  show "txParams (snd (deploy keccak256 this name c args s)) = ?p"
    unfolding d send_and_confirm_fields by simp
  show "filter is_transaction (calls (snd (deploy keccak256 this name c args s)))
           = filter is_transaction (calls s) @ [FactoryDeploy data HashZero ?p]"
    unfolding d send_and_confirm_fields by simp
qed

lemma sim_address:
  "addressFromData sample_hash sim_factory_address [0x60, 0x80] = Inr counter_address"
  by code_simp

lemma sim_facts:
  "getDeployTransaction counter_factory () = Some [0x60, 0x80]"
  "address (singletonFactory (sim_deployer installs)) = sim_factory_address"
  "getCode (provider (sim_deployer installs)) a w
     = (Inr (case map_of w a of None \<Rightarrow> [] | Some code \<Rightarrow> code), w)"
  "getBlock (provider (sim_deployer installs)) w = (Inr \<lparr>block_gasLimit = 30000000\<rparr>, w)"
  "factory_deploy (singletonFactory (sim_deployer False)) data salt params w
     = (Inr (\<lambda>w'. (Inr (), w')), w)"
  "world (sim_start w params) = w"
  "calls (sim_start w params) = []"
  "txParams (sim_start w params) = params"
  by (simp_all add: counter_factory_def sim_deployer_def sim_factory_def sim_provider_def
        sim_start_def)

lemma sim_net_facts:
  "world sim_net = ()"
  "calls sim_net = []"
  "version (counter_request v) = v"
  "contractToVerify (counter_request v) = ''Counter.sol:CounterWithLogs''"
  "tenderlyVerifier (sim_verifier registry True) a n r w = (Inl (Error ''Tenderly is down''), w)"
  "axios_get (sim_verifier registry down) url w = (registry, w)"
  "tenderlyVerifier (sim_verifier registry False) a n r w = (Inr (), w)"
  "etherscanVerifier (sim_verifier registry down) a e w = (Inr (), w)"
  by (simp_all add: sim_net_def counter_request_def sim_verifier_def)

lemma sim_no_block_facts:
  "address (singletonFactory sim_deployer_no_block) = sim_factory_address"
  "getCode (provider sim_deployer_no_block) a w
     = (Inr (case map_of w a of None \<Rightarrow> [] | Some code \<Rightarrow> code), w)"
  "getBlock (provider sim_deployer_no_block) w = (Inl (Error ''could not detect network''), w)"
  by (simp_all add: sim_deployer_no_block_def sim_factory_def sim_provider_def)

subsection \<open>The claims\<close>

text \<open>
  C1. For every deployment bytecode and factory address, with a hash function whose
  digests are thirty-two bytes, \<open>addressFromData\<close> returns the checksum rendering of the
  last twenty bytes of the hash of \<open>0xff\<close>, the factory address, thirty-two zero bytes
  and the hash of the bytecode; equal bytecode and equal factory address give equal
  derived addresses.
\<close>

theorem addressFromData_formula:
  assumes "\<forall>x. length (keccak256 x) = 32"
  shows "addressFromData keccak256 factoryAddress data =
           Inr (getChecksumAddress keccak256
                 (let h = keccak256 ([0xff] @ factoryAddress @ replicate 32 0 @ keccak256 data)
                  in drop (length h - 20) h))
         \<and> (\<forall>factoryAddress' data'. factoryAddress' = factoryAddress \<and> data' = data \<longrightarrow>
              addressFromData keccak256 factoryAddress' data' =
              addressFromData keccak256 factoryAddress data)"
  using assms
  by (simp add: addressFromData_def getAddress_def hexDataSlice_def HashZero_def Let_def)

theorem addressFromData_formula_witness:
  "(\<forall>x. length (sample_hash x) = 32)
   \<and> addressFromData sample_hash sim_factory_address [0x60, 0x80]
       = Inr ''0x55555555fFfFfFfFfFfFfFfFfFfFfFfFffffffff''"
proof -
  have h: "\<forall>x. length (sample_hash x) = 32"
    by (simp add: length_sample_hash)
  have v: "getChecksumAddress sample_hash
             (let h = sample_hash ([0xff] @ sim_factory_address @ replicate 32 0 @ sample_hash [0x60, 0x80])
              in drop (length h - 20) h) = ''0x55555555fFfFfFfFfFfFfFfFfFfFfFfFffffffff''"
    by code_simp
  show ?thesis
    using addressFromData_formula [OF h, of sim_factory_address "[0x60, 0x80]"] h v by simp
qed

text \<open>
  C2. When the first code query for the derived address answers with non-empty bytes,
  \<open>deploy\<close> returns the handle bound to that address and sends no transaction: the
  transactions among its calls are those that were there before, and the chain is as the
  query left it.
\<close>

theorem deploy_skips_deployed:
  assumes "getDeployTransaction c args = Some data"
    and "addressFromData keccak256 (address (singletonFactory this)) data = Inr addr"
    and "getCode (provider this) addr (world s) = (Inr code, w1)"
    and "code \<noteq> []"
  shows "fst (deploy keccak256 this name c args s) = Inr (Contract addr)
       \<and> filter is_transaction (calls (snd (deploy keccak256 this name c args s)))
           = filter is_transaction (calls s)
       \<and> (\<forall>x \<in> set (calls (snd (deploy keccak256 this name c args s))).
             is_transaction x \<longrightarrow> x \<in> set (calls s))
       \<and> world (snd (deploy keccak256 this name c args s)) = w1"
proof -
  have u: "deploy keccak256 this name c args s =
     (Inr (Contract addr),
      logger_log this (''Skipping '' @ name @ '' because it has been deployed at '' @ addr)
        ((logger_log this (''Deploying '' @ name) s)
           \<lparr>world := w1, calls := calls (logger_log this (''Deploying '' @ name) s) @ [GetCode addr]\<rparr>))"
    using deploy_unfold [OF assms(1,2,3)] assms(4) by (simp add: Let_def)
  have f: "filter is_transaction (calls (snd (deploy keccak256 this name c args s)))
           = filter is_transaction (calls s)"
    by (simp add: u)
  have "\<And>x. x \<in> set (calls (snd (deploy keccak256 this name c args s))) \<Longrightarrow> is_transaction x
          \<Longrightarrow> x \<in> set (calls s)"
  proof -
    fix x
    assume "x \<in> set (calls (snd (deploy keccak256 this name c args s)))" "is_transaction x"
    then have "x \<in> set (filter is_transaction (calls (snd (deploy keccak256 this name c args s))))"
      by simp
    then show "x \<in> set (calls s)" unfolding f by simp
  qed
  then show ?thesis using f by (simp add: u)
qed

theorem deploy_skips_deployed_witness:
  "fst (deploy sample_hash (sim_deployer True) ''Counter'' counter_factory ()
          (sim_start [(counter_address, [0x60, 0x80])] no_params))
     = Inr (Contract counter_address)
   \<and> filter is_transaction
        (calls (snd (deploy sample_hash (sim_deployer True) ''Counter'' counter_factory ()
                       (sim_start [(counter_address, [0x60, 0x80])] no_params)))) = []"
proof -
  have a: "addressFromData sample_hash (address (singletonFactory (sim_deployer True))) [0x60, 0x80]
             = Inr counter_address"
    by (simp add: sim_facts sim_address)
  have g: "getCode (provider (sim_deployer True)) counter_address
             (world (sim_start [(counter_address, [0x60, 0x80])] no_params))
           = (Inr [0x60, 0x80], [(counter_address, [0x60, 0x80])])"
    by (simp add: sim_facts)
  have n: "[0x60, 0x80] \<noteq> ([] :: bytes)"
    by simp
  show ?thesis
    using deploy_skips_deployed [OF sim_facts(1) a g n, of "''Counter''"]
    by (simp add: sim_facts)
qed

text \<open>
  C3. When the first code query finds no code, the gas step succeeds, the factory accepts
  the transaction, its wait completes, and the second code query still finds no code,
  \<open>deploy\<close> throws the error \<open>Failed to deploy name at address\<close>, whose message
  contains the contract name and the derived address; no handle is returned.
\<close>

theorem deploy_unconfirmed_throws:
  assumes "getDeployTransaction c args = Some data"
    and "addressFromData keccak256 (address (singletonFactory this)) data = Inr addr"
    and "getCode (provider this) addr (world s) = (Inr [], w1)"
    and "if falsy (gasLimit (txParams s))
         then \<exists>b. getBlock (provider this) w1 = (Inr b, w2)
                \<and> params = (txParams s)\<lparr>gasLimit := Some (BigNumber ((block_gasLimit b * 4) sdiv 10))\<rparr>
         else w2 = w1 \<and> params = txParams s"
    and "factory_deploy (singletonFactory this) data HashZero params w2 = (Inr tx, w3)"
    and "tx w3 = (Inr (), w4)"
    and "getCode (provider this) addr w4 = (Inr [], w5)"
  shows "fst (deploy keccak256 this name c args s)
           = Inl (Error (''Failed to deploy '' @ name @ '' at '' @ addr))
       \<and> sublist name (''Failed to deploy '' @ name @ '' at '' @ addr)
       \<and> sublist addr (''Failed to deploy '' @ name @ '' at '' @ addr)"
proof -
  have 1: "fst (deploy keccak256 this name c args s)
           = Inl (Error (''Failed to deploy '' @ name @ '' at '' @ addr))"
    using deploy_unfold [OF assms(1,2,3)] assms(4-)
    by (auto simp: Let_def await_def upGas_def deployIt_def confirmDeployment_def perform_def
          length_hexlify split: if_splits)
  have 2: "sublist name (''Failed to deploy '' @ name @ '' at '' @ addr)"
    by (metis sublist_appendI)
  have 3: "sublist addr (''Failed to deploy '' @ name @ '' at '' @ addr)"
    by (metis append_Nil2 append_assoc sublist_appendI)
  from 1 2 3 show ?thesis by simp
qed

theorem deploy_unconfirmed_throws_witness:
  "fst (deploy sample_hash (sim_deployer False) ''Counter'' counter_factory ()
          (sim_start [] no_params))
     = Inl (Error (''Failed to deploy Counter at '' @ counter_address))"
proof -
  let ?p = "no_params\<lparr>gasLimit := Some (BigNumber 12000000)\<rparr>"
  have a: "addressFromData sample_hash (address (singletonFactory (sim_deployer False))) [0x60, 0x80]
             = Inr counter_address"
    by (simp add: sim_facts sim_address)
  have g: "getCode (provider (sim_deployer False)) counter_address (world (sim_start [] no_params))
           = (Inr [], [])"
    by (simp add: sim_facts)
  have u: "if falsy (gasLimit (txParams (sim_start [] no_params)))
         then \<exists>b. getBlock (provider (sim_deployer False)) [] = (Inr b, [])
                \<and> ?p = (txParams (sim_start [] no_params))
                         \<lparr>gasLimit := Some (BigNumber ((block_gasLimit b * 4) sdiv 10))\<rparr>
         else [] = ([] :: sim_chain) \<and> ?p = txParams (sim_start [] no_params)"
    by (simp add: sim_facts no_params_def signed_divide_int_def)
  have t: "factory_deploy (singletonFactory (sim_deployer False)) [0x60, 0x80] HashZero ?p []
             = (Inr (\<lambda>w'. (Inr (), w')), [])"
    by (simp add: sim_facts)
  have w: "(\<lambda>w'. (Inr (), w')) ([] :: sim_chain) = (Inr (), [])"
    by simp
  have g2: "getCode (provider (sim_deployer False)) counter_address [] = (Inr [], [])"
    by (simp add: sim_facts)
  show ?thesis
    using deploy_unconfirmed_throws [OF sim_facts(1) a g u t w g2, of "''Counter''"]
    by simp
qed

text \<open>
  C4. When the registry answers with a success status and its document maps
  \<open>v0.8.18\<close> to \<open>soljson-v0.8.18+commit.87f61d96.js\<close>, \<open>getLongVersion\<close> of
  \<open>v0.8.18\<close> returns \<open>v0.8.18+commit.87f61d96\<close>. (\<open>replace_soljson_strip\<close> above is
  the general fact: on one line, the prefix and the suffix are stripped.)
\<close>

theorem getLongVersion_example:
  assumes "axios_get this COMPILERS_LIST_URL (world s) = (Inr response, w')"
    and "200 \<le> status response" and "status response \<le> 299"
    and "releases response = Some rel"
    and "rel ''v0.8.18'' = JsString ''soljson-v0.8.18+commit.87f61d96.js''"
  shows "fst (getLongVersion this ''v0.8.18'' s) = Inr ''v0.8.18+commit.87f61d96''"
proof -
  have "replace_soljson (''soljson-'' @ ''v0.8.18+commit.87f61d96'' @ ''.js'')
          = ''v0.8.18+commit.87f61d96''"
    by (rule replace_soljson_strip) (simp add: line_terminator_def)
  then have r: "replace_soljson ''soljson-v0.8.18+commit.87f61d96.js'' = ''v0.8.18+commit.87f61d96''"
    by simp
  show ?thesis
    using assms r
    by (simp add: getLongVersion_def fetchLongVersion_def await_def perform_def)
qed

theorem getLongVersion_example_witness:
  "fst (getLongVersion (sim_verifier (Inr sim_registry) False) ''v0.8.18'' sim_net)
     = Inr ''v0.8.18+commit.87f61d96''"
proof -
  have a: "axios_get (sim_verifier (Inr sim_registry) False) COMPILERS_LIST_URL (world sim_net)
             = (Inr sim_registry, ())"
    by (simp add: sim_verifier_def)
  have b: "200 \<le> status sim_registry" and c: "status sim_registry \<le> 299"
    by (simp_all add: sim_registry_def)
  have d: "releases sim_registry = Some sim_releases"
    by (simp add: sim_registry_def)
  have e: "sim_releases ''v0.8.18'' = JsString ''soljson-v0.8.18+commit.87f61d96.js''"
    by (simp add: sim_releases_def)
  show ?thesis
    by (rule getLongVersion_example [OF a b c d e])
qed

text \<open>
  C5. When the version of the request contains \<open>+\<close>, the short version is the version
  up to the first \<open>+\<close>, the long version is the version as given, the state is
  untouched by the resolution, the request sent to Tenderly carries that short version,
  and \<open>verifyContract\<close> makes no call to the compiler registry.
\<close>

theorem verifyContract_long_version:
  assumes "CHR ''+'' \<in> set (version req)"
  shows "resolveVersions this (version req) s
           = (Inr (takeWhile (\<lambda>c. c \<noteq> CHR ''+'') (version req), version req), s)
       \<and> (\<exists>rest. calls (snd (verifyContract this addr req s))
             = calls s @ TenderlyVerify addr (contractToVerify req)
                 (tenderVerificationRequest req (takeWhile (\<lambda>c. c \<noteq> CHR ''+'') (version req)))
               # rest
             \<and> (\<forall>c \<in> set rest. \<not> is_registry_call c))
       \<and> solc_version (tenderVerificationRequest req (takeWhile (\<lambda>c. c \<noteq> CHR ''+'') (version req)))
           = takeWhile (\<lambda>c. c \<noteq> CHR ''+'') (version req)
       \<and> filter is_registry_call (calls (snd (verifyContract this addr req s)))
           = filter is_registry_call (calls s)"
proof -
  let ?short = "takeWhile (\<lambda>c. c \<noteq> CHR ''+'') (version req)"
  let ?t = "TenderlyVerify addr (contractToVerify req) (tenderVerificationRequest req ?short)"
  let ?e = "EtherscanVerify addr (etherscanVerificationRequest req (version req))"
  have rv: "resolveVersions this (version req) s = (Inr (?short, version req), s)"
    by (rule resolveVersions_long [OF assms])
  obtain rt w2 where t: "tenderlyVerifier this addr (contractToVerify req)
        (tenderVerificationRequest req ?short) (world s) = (rt, w2)"
    by (cases "tenderlyVerifier this addr (contractToVerify req)
        (tenderVerificationRequest req ?short) (world s)")
  obtain re w3 where e: "etherscanVerifier this addr
        (etherscanVerificationRequest req (version req)) w2 = (re, w3)"
    by (cases "etherscanVerifier this addr (etherscanVerificationRequest req (version req)) w2")
  have shape: "calls (snd (verifyContract this addr req s)) = calls s @ ?t # []
       \<or> calls (snd (verifyContract this addr req s)) = calls s @ ?t # [?e]"
    using rv t e by (cases rt) (simp_all add: verifyContract_def await_def perform_def)
  then have ex: "\<exists>rest. calls (snd (verifyContract this addr req s)) = calls s @ ?t # rest
             \<and> (\<forall>c \<in> set rest. \<not> is_registry_call c)"
    by auto
  have fl: "filter is_registry_call (calls (snd (verifyContract this addr req s)))
           = filter is_registry_call (calls s)"
    using shape by auto
  have sv: "solc_version (tenderVerificationRequest req ?short) = ?short"
    by (simp add: tenderVerificationRequest_def)
  from rv ex sv fl show ?thesis by simp
qed

theorem verifyContract_long_version_witness:
  "resolveVersions (sim_verifier (Inr sim_registry) False) ''v0.8.18+commit.87f61d96'' sim_net
     = (Inr (''v0.8.18'', ''v0.8.18+commit.87f61d96''), sim_net)
   \<and> filter is_registry_call
        (calls (snd (verifyContract (sim_verifier (Inr sim_registry) False) counter_address
                       (counter_request ''v0.8.18+commit.87f61d96'') sim_net))) = []"
proof -
  have p: "CHR ''+'' \<in> set (version (counter_request ''v0.8.18+commit.87f61d96''))"
    by (simp add: sim_net_facts)
  show ?thesis
    using verifyContract_long_version [OF p, of "sim_verifier (Inr sim_registry) False" sim_net
        counter_address]
    by (simp add: sim_net_facts)
qed

text \<open>
  C6. Among the calls of \<open>verifyContract\<close>, every submission to Etherscan comes after
  a submission to Tenderly. When the Tenderly submission throws, \<open>verifyContract\<close>
  throws the same error, its last call is that submission, and it makes no submission
  to Etherscan. When the Tenderly submission returns, the calls that follow the version
  resolution are exactly the Tenderly submission and then the Etherscan submission, and
  the outcome of \<open>verifyContract\<close> is the outcome of the Etherscan submission.
\<close>

theorem verifyContract_tenderly_first:
  "(\<exists>new. calls (snd (verifyContract this addr req s)) = calls s @ new
       \<and> (\<forall>xs c ys. new = xs @ c # ys \<and> is_etherscan_call c \<longrightarrow>
            (\<exists>t \<in> set xs. is_tenderly_call t)))
   \<and> (\<forall>short long s1 e w2.
         resolveVersions this (version req) s = (Inr (short, long), s1)
         \<and> tenderlyVerifier this addr (contractToVerify req)
              (tenderVerificationRequest req short) (world s1) = (Inl e, w2) \<longrightarrow>
         fst (verifyContract this addr req s) = Inl e
         \<and> calls (snd (verifyContract this addr req s))
             = calls s1 @ [TenderlyVerify addr (contractToVerify req)
                            (tenderVerificationRequest req short)]
         \<and> (\<forall>c \<in> set (calls (snd (verifyContract this addr req s))).
               is_etherscan_call c \<longrightarrow> c \<in> set (calls s)))
   \<and> (\<forall>short long s1 w2.
         resolveVersions this (version req) s = (Inr (short, long), s1)
         \<and> tenderlyVerifier this addr (contractToVerify req)
              (tenderVerificationRequest req short) (world s1) = (Inr (), w2) \<longrightarrow>
         calls (snd (verifyContract this addr req s))
             = calls s1 @ [TenderlyVerify addr (contractToVerify req)
                            (tenderVerificationRequest req short),
                          EtherscanVerify addr (etherscanVerificationRequest req long)]
         \<and> fst (verifyContract this addr req s)
             = fst (etherscanVerifier this addr (etherscanVerificationRequest req long) w2))"
proof (intro conjI allI impI)
  obtain pre new where new: "calls (snd (verifyContract this addr req s)) = calls s @ new"
    and clean: "\<forall>c \<in> set pre. \<not> is_tenderly_call c \<and> \<not> is_etherscan_call c"
    and shape: "new = pre \<or> (\<exists>t. is_tenderly_call t \<and> (new = pre @ [t] \<or> (\<exists>e. new = pre @ [t, e])))"
    using verifyContract_shape by blast
  have ordered: "\<exists>t \<in> set xs. is_tenderly_call t"
    if split: "new = xs @ c # ys" and c: "is_etherscan_call c" for xs c ys
  proof -
    have notpre: "c \<notin> set pre" using clean c by blast
    have inn: "c \<in> set new" using split by simp
    from shape consider "new = pre" | t where "is_tenderly_call t" "new = pre @ [t]"
      | t e where "is_tenderly_call t" "new = pre @ [t, e]" by blast
    then show ?thesis
    proof cases
      case 1
      then show ?thesis using inn notpre by simp
    next
      case 2
      then have "c = t" using inn notpre by simp
      then show ?thesis using 2 c by (cases t) simp_all
    next
      case 3
      have "c \<noteq> t" using 3(1) c by (cases t) auto
      then have "xs = pre @ [t]"
        using split_before_last [of xs c ys pre t e] split 3(2) notpre by simp
      then show ?thesis using 3(1) by simp
    qed
  qed
  show "\<exists>new. calls (snd (verifyContract this addr req s)) = calls s @ new
       \<and> (\<forall>xs c ys. new = xs @ c # ys \<and> is_etherscan_call c \<longrightarrow>
            (\<exists>t \<in> set xs. is_tenderly_call t))"
  proof (intro exI [of _ new] conjI allI impI)
    show "calls (snd (verifyContract this addr req s)) = calls s @ new" by (rule new)
  next
    fix xs c ys
    assume "new = xs @ c # ys \<and> is_etherscan_call c"
    then show "\<exists>t \<in> set xs. is_tenderly_call t" using ordered by blast
  qed
next
  fix short long s1 e w2
  assume h: "resolveVersions this (version req) s = (Inr (short, long), s1)
     \<and> tenderlyVerifier this addr (contractToVerify req)
          (tenderVerificationRequest req short) (world s1) = (Inl e, w2)"
  then show "fst (verifyContract this addr req s) = Inl e"
    by (simp add: verifyContract_def await_def perform_def)
  from h show k: "calls (snd (verifyContract this addr req s))
             = calls s1 @ [TenderlyVerify addr (contractToVerify req)
                            (tenderVerificationRequest req short)]"
    by (simp add: verifyContract_def await_def perform_def)
  obtain pre where pre: "calls (snd (resolveVersions this (version req) s)) = calls s @ pre"
    and clean: "\<forall>c \<in> set pre. \<not> is_tenderly_call c \<and> \<not> is_etherscan_call c"
    using resolveVersions_calls by blast
  have "calls s1 = calls s @ pre" using pre h by simp
  then show "\<forall>c \<in> set (calls (snd (verifyContract this addr req s))).
               is_etherscan_call c \<longrightarrow> c \<in> set (calls s)"
    using k clean by auto
next
  fix short long s1 w2
  assume h: "resolveVersions this (version req) s = (Inr (short, long), s1)
     \<and> tenderlyVerifier this addr (contractToVerify req)
          (tenderVerificationRequest req short) (world s1) = (Inr (), w2)"
  obtain re w3 where e: "etherscanVerifier this addr
      (etherscanVerificationRequest req long) w2 = (re, w3)"
    by (cases "etherscanVerifier this addr (etherscanVerificationRequest req long) w2")
  from h e show "calls (snd (verifyContract this addr req s))
             = calls s1 @ [TenderlyVerify addr (contractToVerify req)
                            (tenderVerificationRequest req short),
                          EtherscanVerify addr (etherscanVerificationRequest req long)]"
    by (simp add: verifyContract_def await_def perform_def)
  from h e show "fst (verifyContract this addr req s)
             = fst (etherscanVerifier this addr (etherscanVerificationRequest req long) w2)"
    by (simp add: verifyContract_def await_def perform_def)
qed

theorem verifyContract_tenderly_first_witness:
  "fst (verifyContract (sim_verifier (Inr sim_registry) True) counter_address
          (counter_request ''v0.8.18+commit.87f61d96'') sim_net)
     = Inl (Error ''Tenderly is down'')
   \<and> calls (snd (verifyContract (sim_verifier (Inr sim_registry) True) counter_address
                   (counter_request ''v0.8.18+commit.87f61d96'') sim_net))
     = [TenderlyVerify counter_address ''Counter.sol:CounterWithLogs''
          (tenderVerificationRequest (counter_request ''v0.8.18+commit.87f61d96'') ''v0.8.18'')]
   \<and> fst (verifyContract (sim_verifier (Inr sim_registry) False) counter_address
          (counter_request ''v0.8.18+commit.87f61d96'') sim_net)
     = Inr ()
   \<and> calls (snd (verifyContract (sim_verifier (Inr sim_registry) False) counter_address
                   (counter_request ''v0.8.18+commit.87f61d96'') sim_net))
     = [TenderlyVerify counter_address ''Counter.sol:CounterWithLogs''
          (tenderVerificationRequest (counter_request ''v0.8.18+commit.87f61d96'') ''v0.8.18''),
        EtherscanVerify counter_address
          (etherscanVerificationRequest (counter_request ''v0.8.18+commit.87f61d96'')
             ''v0.8.18+commit.87f61d96'')]"
proof -
  let ?down = "sim_verifier (Inr sim_registry) True"
  let ?up = "sim_verifier (Inr sim_registry) False"
  let ?req = "counter_request ''v0.8.18+commit.87f61d96''"
  have rv: "resolveVersions V (version ?req) sim_net
              = (Inr (''v0.8.18'', ''v0.8.18+commit.87f61d96''), sim_net)" for V :: "unit ContractVerifier"
    using resolveVersions_long [of "''v0.8.18+commit.87f61d96''" V sim_net]
    by (simp add: sim_net_facts)
  have t: "tenderlyVerifier ?down counter_address (contractToVerify ?req)
             (tenderVerificationRequest ?req ''v0.8.18'') (world sim_net)
           = (Inl (Error ''Tenderly is down''), ())"
    by (simp add: sim_net_facts)
  have u: "tenderlyVerifier ?up counter_address (contractToVerify ?req)
             (tenderVerificationRequest ?req ''v0.8.18'') (world sim_net)
           = (Inr (), ())"
    by (simp add: sim_net_facts)
  have failing:
    "fst (verifyContract ?down counter_address ?req sim_net) = Inl (Error ''Tenderly is down'')
     \<and> calls (snd (verifyContract ?down counter_address ?req sim_net))
       = [TenderlyVerify counter_address ''Counter.sol:CounterWithLogs''
            (tenderVerificationRequest ?req ''v0.8.18'')]"
    using verifyContract_tenderly_first [of ?down counter_address ?req sim_net] rv [of ?down] t
    by (simp add: sim_net_facts)
  have succeeding:
    "fst (verifyContract ?up counter_address ?req sim_net) = Inr ()
     \<and> calls (snd (verifyContract ?up counter_address ?req sim_net))
       = [TenderlyVerify counter_address ''Counter.sol:CounterWithLogs''
            (tenderVerificationRequest ?req ''v0.8.18''),
          EtherscanVerify counter_address
            (etherscanVerificationRequest ?req ''v0.8.18+commit.87f61d96'')]"
    using verifyContract_tenderly_first [of ?up counter_address ?req sim_net] rv [of ?up] u
    by (simp add: sim_net_facts)
  from failing succeeding show ?thesis by simp
qed

text \<open>
  C7. \<open>validateBytecode\<close> throws \<open>Bytecode mismatch\<close> whenever the creation bytecode
  of the factory differs from the expected string (in length or at any position), and
  returns normally exactly when the two are equal.
\<close>

theorem validateBytecode_exact:
  "(bytecode factory \<noteq> expectedBytecode \<longrightarrow>
      validateBytecode factory expectedBytecode = Inl (Error ''Bytecode mismatch''))
   \<and> ((length (bytecode factory) \<noteq> length expectedBytecode
        \<or> (\<exists>i < length expectedBytecode. bytecode factory ! i \<noteq> expectedBytecode ! i)) \<longrightarrow>
      validateBytecode factory expectedBytecode = Inl (Error ''Bytecode mismatch''))
   \<and> (validateBytecode factory expectedBytecode = Inr () \<longleftrightarrow>
      bytecode factory = expectedBytecode)"
  by (auto simp: validateBytecode_def)

theorem validateBytecode_exact_witness:
  "validateBytecode counter_factory ''0x6081'' = Inl (Error ''Bytecode mismatch'')
   \<and> validateBytecode counter_factory ''0x6080'' = Inr ()"
proof -
  have d: "bytecode counter_factory \<noteq> ''0x6081''"
    by (simp add: counter_factory_def)
  have e: "bytecode counter_factory = ''0x6080''"
    by (simp add: counter_factory_def)
  from validateBytecode_exact [of counter_factory "''0x6081''"] d
  have 1: "validateBytecode counter_factory ''0x6081'' = Inl (Error ''Bytecode mismatch'')"
    by blast
  from validateBytecode_exact [of counter_factory "''0x6080''"] e
  have 2: "validateBytecode counter_factory ''0x6080'' = Inr ()"
    by blast
  from 1 2 show ?thesis by simp
qed

text \<open>
  C8, as amended. \<open>getLongVersion\<close> throws on a network failure, on a status outside
  200 to 299, and on a missing or empty entry for the requested version. On a network
  failure and on such a status the error that reaches the caller is the fixed
  \<open>Unable to determine solidity compiler version\<close>.
\<close>

theorem getLongVersion_failures:
  assumes "axios_get this COMPILERS_LIST_URL (world s) = (r, w')"
  shows "((\<exists>e. r = Inl e) \<longrightarrow>
            fst (getLongVersion this shortVersion s)
              = Inl (Error ''Unable to determine solidity compiler version''))
       \<and> (\<forall>response. r = Inr response \<and> (status response < 200 \<or> status response > 299) \<longrightarrow>
            fst (getLongVersion this shortVersion s)
              = Inl (Error ''Unable to determine solidity compiler version''))
       \<and> (\<forall>response rel. r = Inr response \<and> releases response = Some rel
              \<and> (rel shortVersion = Undefined \<or> rel shortVersion = JsString []) \<longrightarrow>
            isl (fst (getLongVersion this shortVersion s)))"
  using assms
  by (auto simp: getLongVersion_def fetchLongVersion_def await_def perform_def Let_def)

theorem getLongVersion_failures_witness:
  "fst (getLongVersion (sim_verifier (Inl (Error ''Network Error'')) False) ''v0.8.18'' sim_net)
     = Inl (Error ''Unable to determine solidity compiler version'')
   \<and> fst (getLongVersion (sim_verifier (Inr (sim_registry\<lparr>status := 404\<rparr>)) False) ''v0.8.18'' sim_net)
     = Inl (Error ''Unable to determine solidity compiler version'')
   \<and> isl (fst (getLongVersion (sim_verifier (Inr sim_registry) False) ''v0.4.0'' sim_net))"
proof -
  have a: "axios_get (sim_verifier (Inl (Error ''Network Error'')) False) COMPILERS_LIST_URL
             (world sim_net) = (Inl (Error ''Network Error''), ())"
    by (simp add: sim_verifier_def)
  have b: "axios_get (sim_verifier (Inr (sim_registry\<lparr>status := 404\<rparr>)) False) COMPILERS_LIST_URL
             (world sim_net) = (Inr (sim_registry\<lparr>status := 404\<rparr>), ())"
    by (simp add: sim_verifier_def)
  have c: "axios_get (sim_verifier (Inr sim_registry) False) COMPILERS_LIST_URL
             (world sim_net) = (Inr sim_registry, ())"
    by (simp add: sim_verifier_def)
  have m: "releases sim_registry = Some sim_releases \<and> sim_releases ''v0.4.0'' = Undefined"
    by (simp add: sim_registry_def sim_releases_def)
  have 1: "fst (getLongVersion (sim_verifier (Inl (Error ''Network Error'')) False) ''v0.8.18'' sim_net)
     = Inl (Error ''Unable to determine solidity compiler version'')"
    using getLongVersion_failures [OF a, of "''v0.8.18''"] by blast
  have 2: "fst (getLongVersion (sim_verifier (Inr (sim_registry\<lparr>status := 404\<rparr>)) False) ''v0.8.18'' sim_net)
     = Inl (Error ''Unable to determine solidity compiler version'')"
    using getLongVersion_failures [OF b, of "''v0.8.18''"] by simp
  have 3: "isl (fst (getLongVersion (sim_verifier (Inr sim_registry) False) ''v0.4.0'' sim_net))"
    using getLongVersion_failures [OF c, of "''v0.4.0''"] m by blast
  from 1 2 3 show ?thesis by simp
qed

text \<open>
  C8, as stated, fails: on a 404 answer of the registry the error that reaches the
  caller of \<open>getLongVersion\<close> for \<open>v0.8.18\<close> does not contain the requested version.
\<close>

theorem getLongVersion_error_without_version:
  "fst (getLongVersion (sim_verifier (Inr (sim_registry\<lparr>status := 404\<rparr>)) False) ''v0.8.18'' sim_net)
     = Inl (Error ''Unable to determine solidity compiler version'')
   \<and> \<not> sublist ''v0.8.18'' ''Unable to determine solidity compiler version''"
proof -
  have 1: "fst (getLongVersion (sim_verifier (Inr (sim_registry\<lparr>status := 404\<rparr>)) False) ''v0.8.18'' sim_net)
     = Inl (Error ''Unable to determine solidity compiler version'')"
    by (simp add: getLongVersion_def fetchLongVersion_def await_def perform_def sim_verifier_def
          sim_net_def sim_registry_def verifier_logger_error_def Let_def)
  have 2: "\<not> sublist ''v0.8.18'' ''Unable to determine solidity compiler version''"
    by code_simp
  from 1 2 show ?thesis by simp
qed

text \<open>
  C9. When no code is found at the derived address, \<open>txParams\<close> has no \<open>gasLimit\<close> and
  the latest block (with a gas limit that is not negative) is returned, the one
  transaction that \<open>deploy\<close> sends goes to the factory with the gas limit
  \<open>blockGasLimit * 4 div 10\<close>, the floor of four tenths of the block's gas limit.
\<close>

theorem deploy_gas_estimate:
  assumes "getDeployTransaction c args = Some data"
    and "addressFromData keccak256 (address (singletonFactory this)) data = Inr addr"
    and "getCode (provider this) addr (world s) = (Inr [], w1)"
    and "gasLimit (txParams s) = None"
    and "getBlock (provider this) w1 = (Inr b, w2)"
    and "0 \<le> block_gasLimit b"
  shows "filter is_transaction (calls (snd (deploy keccak256 this name c args s)))
           = filter is_transaction (calls s) @
             [FactoryDeploy data HashZero
                ((txParams s)\<lparr>gasLimit := Some (BigNumber ((block_gasLimit b * 4) div 10))\<rparr>)]
       \<and> (block_gasLimit b * 4) div 10 = \<lfloor>real_of_int (block_gasLimit b) * 4 / 10\<rfloor>"
proof -
  have f: "falsy (gasLimit (txParams s))"
    using assms(4) by simp
  show ?thesis
    using deploy_estimating(2) [OF assms(1,2,3) f assms(5), of name] sdiv_nonneg [OF assms(6)]
      floor_form [of "block_gasLimit b"]
    by simp
qed

theorem deploy_gas_estimate_witness:
  "filter is_transaction
     (calls (snd (deploy sample_hash (sim_deployer True) ''Counter'' counter_factory ()
                    (sim_start [] no_params))))
     = [FactoryDeploy [0x60, 0x80] HashZero (no_params\<lparr>gasLimit := Some (BigNumber 12000000)\<rparr>)]"
proof -
  have a: "addressFromData sample_hash (address (singletonFactory (sim_deployer True))) [0x60, 0x80]
             = Inr counter_address"
    by (simp add: sim_facts sim_address)
  have g: "getCode (provider (sim_deployer True)) counter_address (world (sim_start [] no_params))
           = (Inr [], [])"
    by (simp add: sim_facts)
  have n: "gasLimit (txParams (sim_start [] no_params)) = None"
    by (simp add: sim_facts no_params_def)
  have b: "getBlock (provider (sim_deployer True)) [] = (Inr \<lparr>block_gasLimit = 30000000\<rparr>, [])"
    by (simp add: sim_facts)
  have p: "0 \<le> block_gasLimit \<lparr>block_gasLimit = 30000000\<rparr>"
    by simp
  show ?thesis
    using deploy_gas_estimate [OF sim_facts(1) a g n b p, of "''Counter''"]
    by (simp add: sim_facts)
qed

text \<open>
  C10, as amended. When code is found at the derived address, \<open>deploy\<close> leaves
  \<open>txParams\<close> as it was. When none is found, \<open>txParams\<close> has no \<open>gasLimit\<close> and the
  latest block is obtained from the provider, \<open>txParams\<close> after the call is \<open>txParams\<close>
  before it with the estimate in \<open>gasLimit\<close> and every other field unchanged, whatever
  happens to the transaction.
\<close>

theorem deploy_txParams_frame:
  assumes "getDeployTransaction c args = Some data"
    and "addressFromData keccak256 (address (singletonFactory this)) data = Inr addr"
    and "getCode (provider this) addr (world s) = (Inr code, w1)"
  shows "(code \<noteq> [] \<longrightarrow> txParams (snd (deploy keccak256 this name c args s)) = txParams s)
       \<and> (code = [] \<and> gasLimit (txParams s) = None \<longrightarrow>
            (\<forall>b w2. getBlock (provider this) w1 = (Inr b, w2) \<longrightarrow>
               txParams (snd (deploy keccak256 this name c args s))
                 = (txParams s)\<lparr>gasLimit :=
                      Some (BigNumber ((block_gasLimit b * 4) sdiv 10))\<rparr>))"
proof (intro conjI impI allI)
  assume "code \<noteq> []"
  then show "txParams (snd (deploy keccak256 this name c args s)) = txParams s"
    using deploy_unfold [OF assms, of name] by (simp add: Let_def)
next
  fix b w2
  assume h: "code = [] \<and> gasLimit (txParams s) = None"
    and g: "getBlock (provider this) w1 = (Inr b, w2)"
  have f: "falsy (gasLimit (txParams s))" using h by simp
  have c: "getCode (provider this) addr (world s) = (Inr [], w1)" using assms(3) h by simp
  show "txParams (snd (deploy keccak256 this name c args s))
          = (txParams s)\<lparr>gasLimit := Some (BigNumber ((block_gasLimit b * 4) sdiv 10))\<rparr>"
    by (rule deploy_estimating(1) [OF assms(1,2) c f g])
qed

theorem deploy_txParams_frame_witness:
  "txParams (snd (deploy sample_hash (sim_deployer True) ''Counter'' counter_factory ()
                    (sim_start [] (no_params\<lparr>gasPrice := Some (NumberValue 7)\<rparr>))))
     = no_params\<lparr>gasPrice := Some (NumberValue 7), gasLimit := Some (BigNumber 12000000)\<rparr>
   \<and> txParams (snd (deploy sample_hash (sim_deployer True) ''Counter'' counter_factory ()
                    (sim_start [(counter_address, [0x60, 0x80])]
                       (no_params\<lparr>gasPrice := Some (NumberValue 7)\<rparr>))))
     = no_params\<lparr>gasPrice := Some (NumberValue 7)\<rparr>"
proof -
  let ?p = "no_params\<lparr>gasPrice := Some (NumberValue 7)\<rparr>"
  have a: "addressFromData sample_hash (address (singletonFactory (sim_deployer True))) [0x60, 0x80]
             = Inr counter_address"
    by (simp add: sim_facts sim_address)
  have g0: "getCode (provider (sim_deployer True)) counter_address (world (sim_start [] ?p))
           = (Inr [], [])"
    by (simp add: sim_facts)
  have g1: "getCode (provider (sim_deployer True)) counter_address
             (world (sim_start [(counter_address, [0x60, 0x80])] ?p))
           = (Inr [0x60, 0x80], [(counter_address, [0x60, 0x80])])"
    by (simp add: sim_facts)
  have n: "gasLimit (txParams (sim_start [] ?p)) = None"
    by (simp add: sim_facts no_params_def)
  have b: "getBlock (provider (sim_deployer True)) [] = (Inr \<lparr>block_gasLimit = 30000000\<rparr>, [])"
    by (simp add: sim_facts)
  have 1: "txParams (snd (deploy sample_hash (sim_deployer True) ''Counter'' counter_factory ()
                    (sim_start [] ?p)))
     = ?p\<lparr>gasLimit := Some (BigNumber 12000000)\<rparr>"
    using deploy_txParams_frame [OF sim_facts(1) a g0, of "''Counter''"] n b
    by (simp add: sim_facts signed_divide_int_def)
  have 2: "txParams (snd (deploy sample_hash (sim_deployer True) ''Counter'' counter_factory ()
                    (sim_start [(counter_address, [0x60, 0x80])] ?p))) = ?p"
    using deploy_txParams_frame [OF sim_facts(1) a g1, of "''Counter''"]
    by (simp add: sim_facts)
  from 1 2 show ?thesis by simp
qed

text \<open>
  C10, as stated, fails: no code is deployed at the derived address and \<open>txParams\<close> has
  no \<open>gasLimit\<close>, but the provider rejects the request for the latest block. \<open>deploy\<close>
  throws that error, sends no transaction, and \<open>txParams\<close> is left as it was, still
  without a \<open>gasLimit\<close>.
\<close>

theorem deploy_txParams_untouched_without_block:
  "gasLimit (txParams (sim_start [] no_params)) = None
   \<and> getCode (provider sim_deployer_no_block) counter_address (world (sim_start [] no_params))
       = (Inr [], [])
   \<and> fst (deploy sample_hash sim_deployer_no_block ''Counter'' counter_factory ()
            (sim_start [] no_params))
       = Inl (Error ''could not detect network'')
   \<and> txParams (snd (deploy sample_hash sim_deployer_no_block ''Counter'' counter_factory ()
                      (sim_start [] no_params)))
       = no_params
   \<and> gasLimit (txParams (snd (deploy sample_hash sim_deployer_no_block ''Counter''
                                counter_factory () (sim_start [] no_params))))
       = None
   \<and> filter is_transaction
        (calls (snd (deploy sample_hash sim_deployer_no_block ''Counter'' counter_factory ()
                       (sim_start [] no_params)))) = []"
proof -
  have n: "gasLimit (txParams (sim_start [] no_params)) = None"
    by (simp add: sim_facts no_params_def)
  have a: "addressFromData sample_hash (address (singletonFactory sim_deployer_no_block))
             [0x60, 0x80] = Inr counter_address"
    by (simp add: sim_no_block_facts sim_address)
  have g: "getCode (provider sim_deployer_no_block) counter_address
             (world (sim_start [] no_params)) = (Inr [], [])"
    by (simp add: sim_no_block_facts sim_facts)
  have u: "upGas sim_deployer_no_block s
             = (Inl (Error ''could not detect network''), s\<lparr>calls := calls s @ [GetBlock]\<rparr>)"
    if "gasLimit (txParams s) = None" for s :: "sim_chain deploy_run"
    using that by (simp add: upGas_def await_def perform_def sim_no_block_facts)
  have d: "deploy sample_hash sim_deployer_no_block ''Counter'' counter_factory ()
             (sim_start [] no_params)
           = (Inl (Error ''could not detect network''),
              (logger_log sim_deployer_no_block ''Deploying Counter'' (sim_start [] no_params))
                \<lparr>world := [],
                  calls := calls (logger_log sim_deployer_no_block ''Deploying Counter''
                                    (sim_start [] no_params))
                           @ [GetCode counter_address] @ [GetBlock]\<rparr>)"
    using deploy_unfold [OF sim_facts(1) a g, of "''Counter''"] n
    by (simp add: Let_def await_def u)
  have np: "gasLimit no_params = None"
    by (simp add: no_params_def)
  show ?thesis
    using n g by (simp add: d sim_facts np)
qed

end
